theory Spec2Isabelle
  imports Complex_Main "HOL-Library.Sublist" "HOL-Library.List_Lexorder" "HOL-Library.Char_ord"
    "HOL-Library.AList"
begin

section \<open>Errors, readers, requests and responses\<close>

text \<open>
  Go strings and byte slices are byte sequences; a nil slice and an empty one are both
  the empty list.
\<close>

type_synonym bytes = string

text \<open>
  The error values that travel through the client. \<open>Wrap\<close> is \<^verbatim>\<open>errors.Wrap(err, msg)\<close>,
  \<open>RetryError\<close> is the slice \<^verbatim>\<open>retry.Error\<close> of per-attempt errors (a nil entry is
  \<open>None\<close>), \<open>UnrecoverableStatus\<close> is
  \<^verbatim>\<open>errors.New("unrecoverable status: %v", resp.StatusCode)\<close>.
  \<open>Canceled\<close> and \<open>DeadlineExceeded\<close> are the two values of \<^verbatim>\<open>ctx.Err()\<close>;
  \<open>URLError\<close>, \<open>EscapeError\<close>, \<open>InvalidHostError\<close> and \<open>ParseError\<close> (the
  \<^verbatim>\<open>url.Error\<close> of a failed parse, with the text being parsed) come from \<^verbatim>\<open>net/url\<close>.
\<close>

datatype error =
    Canceled
  | DeadlineExceeded
  | NetError string
  | ReadError string
  | URLError string
  | EscapeError string
  | InvalidHostError string
  | ParseError string error
  | XMLError string
  | EOF
  | ErrBufferFull
  | UnrecoverableStatus int
  | RetryError "error option list"
  | Wrap error string

text \<open>
  What the retried function hands to \<^verbatim>\<open>retry.Do\<close>: a plain error, or one wrapped by
  \<^verbatim>\<open>retry.Unrecoverable\<close>.
\<close>

datatype retry_err = Plain error | Unrecoverable error

fun IsRecoverable :: "retry_err \<Rightarrow> bool" where
  "IsRecoverable (Plain e) = True"
| "IsRecoverable (Unrecoverable e) = False"

fun unpackUnrecoverable :: "retry_err \<Rightarrow> error" where
  "unpackUnrecoverable (Plain e) = e"
| "unpackUnrecoverable (Unrecoverable e) = e"

text \<open>
  An \<^verbatim>\<open>io.ReadCloser\<close>: the bytes not yet read, and the error a read reports once they
  are exhausted (\<open>None\<close> for a plain end of file).
\<close>

record reader =
  unread :: bytes
  fault :: "error option"

definition NewBuffer :: "bytes \<Rightarrow> reader" where
  "NewBuffer b = \<lparr>unread = b, fault = None\<rparr>"

text \<open>\<^verbatim>\<open>io.ReadAll\<close>: everything that was readable, and the error that ended the read.\<close>

definition ReadAll :: "reader \<Rightarrow> bytes \<times> error option" where
  "ReadAll r = (unread r, fault r)"

text \<open>
  A context is observed through \<^verbatim>\<open>ctx.Err()\<close>. Logical time is the number of
  \<^verbatim>\<open>http.Client.Do\<close> calls made so far: \<open>ctx n\<close> is what \<^verbatim>\<open>ctx.Err()\<close> yields
  during call number \<open>n\<close>.
\<close>

type_synonym go_context = "nat \<Rightarrow> error option"

definition Background :: go_context where
  "Background = (\<lambda>n. None)"

record response =
  StatusCode :: int
  RespBody :: reader

record request =
  Method :: string
  URL :: string
  Ctx :: go_context
  Body :: "reader option"
  GetBody :: "bytes option"
  BasicAuth :: "(string \<times> string) option"
  ContentType :: "string option"

section \<open>The transport underneath: \<^verbatim>\<open>http.Client.Do\<close>\<close>

text \<open>
  The network is a parameter of the model. A \<open>server\<close> says, for call number \<open>n\<close> of
  \<^verbatim>\<open>http.Client.Do\<close>, how many bytes of the request body the transport reads and what
  comes back: a transport error or a response. The \<open>world\<close> counts the calls, records the
  readable content of \<^verbatim>\<open>req.Body\<close> at the start of each call (\<open>offered\<close>), counts the
  \<^verbatim>\<open>time.Sleep\<close> calls of the retry loop and keeps the lines of the retry log.
\<close>

record exchange =
  taken :: nat
  reply :: "error + response"

type_synonym server = "nat \<Rightarrow> exchange"

record world =
  calls :: nat
  offered :: "bytes list"
  sleeps :: nat
  retry_log :: "(nat \<times> error) list"

definition world0 :: world where
  "world0 = \<lparr>calls = 0, offered = [], sleeps = 0, retry_log = []\<rparr>"

definition readable :: "request \<Rightarrow> bytes" where
  "readable req = (case Body req of None \<Rightarrow> [] | Some r \<Rightarrow> unread r)"

definition consume :: "nat \<Rightarrow> request \<Rightarrow> request" where
  "consume k req = req\<lparr>Body := map_option (\<lambda>r. r\<lparr>unread := drop k (unread r)\<rparr>) (Body req)\<rparr>"

text \<open>
  A call whose context is done fails with the context's error; otherwise the server's
  exchange decides. Either way the call is counted.
\<close>

definition http_Do :: "server \<Rightarrow> request \<Rightarrow> world \<Rightarrow> (error + response) \<times> request \<times> world" where
  "http_Do srv req w =
     (let n = calls w;
          w' = w\<lparr>calls := Suc n, offered := offered w @ [readable req]\<rparr>
      in case Ctx req n of
           Some e \<Rightarrow> (Inl e, req, w')
         | None \<Rightarrow> (reply (srv n), consume (taken (srv n)) req, w'))"

section \<open>\<^verbatim>\<open>retry.Do\<close> of avast/retry-go v3.0.0\<close>

text \<open>
  The loop of \<^verbatim>\<open>retry.Do\<close> with \<^verbatim>\<open>retryIf = IsRecoverable\<close> and
  \<^verbatim>\<open>lastErrorOnly = false\<close> (the defaults, which \<^verbatim>\<open>retryDo\<close> does not change):
  \<^verbatim>\<open>
  for n < config.attempts {
      err := retryableFunc()
      if err != nil {
          errorLog[lastErrIndex] = unpackUnrecoverable(err)
          if !config.retryIf(err) { break }
          config.onRetry(n, err)
          if n == config.attempts-1 { break }
          time.Sleep(delayTime)
      } else { return nil }
      n++
  }
  return errorLog
  \<close>
  The retried function and the callbacks act on a state \<open>'s\<close>.
\<close>

function retry_loop ::
  "nat \<Rightarrow> ('s \<Rightarrow> retry_err option \<times> 's) \<Rightarrow> (nat \<Rightarrow> error \<Rightarrow> 's \<Rightarrow> 's) \<Rightarrow> ('s \<Rightarrow> 's) \<Rightarrow>
   nat \<Rightarrow> error option list \<Rightarrow> 's \<Rightarrow> error option \<times> 's" where
  "retry_loop attempts f onRetry sleep n errorLog s =
     (if n < attempts then
        (case f s of
           (None, s1) \<Rightarrow> (None, s1)
         | (Some err, s1) \<Rightarrow>
             (let errorLog1 = errorLog[n := Some (unpackUnrecoverable err)] in
              if \<not> IsRecoverable err then (Some (RetryError errorLog1), s1)
              else
                (let s2 = onRetry n (unpackUnrecoverable err) s1 in
                 if n = attempts - 1 then (Some (RetryError errorLog1), s2)
                 else retry_loop attempts f onRetry sleep (Suc n) errorLog1 (sleep s2))))
      else (Some (RetryError errorLog), s))"
  by pat_completeness auto
termination
  by (relation "measure (\<lambda>(attempts, f, onRetry, sleep, n, errorLog, s). attempts - n)") auto

declare retry_loop.simps [simp del]

definition retry_Do ::
  "nat \<Rightarrow> ('s \<Rightarrow> retry_err option \<times> 's) \<Rightarrow> (nat \<Rightarrow> error \<Rightarrow> 's \<Rightarrow> 's) \<Rightarrow> ('s \<Rightarrow> 's) \<Rightarrow>
   's \<Rightarrow> error option \<times> 's" where
  "retry_Do attempts f onRetry sleep s =
     retry_loop attempts f onRetry sleep 0 (replicate attempts None) s"

section \<open>\<^verbatim>\<open>copyBody\<close>, \<^verbatim>\<open>resetBody\<close> and \<^verbatim>\<open>retryDo\<close>\<close>

definition copyBody :: "reader \<Rightarrow> bytes \<times> error option" where
  "copyBody src =
     (case ReadAll src of
        (b, Some err) \<Rightarrow> ([], Some err)
      | (b, None) \<Rightarrow> (b, None))"

definition resetBody :: "request \<Rightarrow> bytes \<Rightarrow> request" where
  "resetBody request originalBody =
     request\<lparr>Body := Some (NewBuffer originalBody), GetBody := Some originalBody\<rparr>"

text \<open>
  The state of the retried closure: the captured variable \<^verbatim>\<open>resp\<close>, the request (whose
  body the transport reads) and the world.
\<close>

type_synonym retry_state = "response option \<times> request \<times> world"

definition attempt :: "server \<Rightarrow> retry_state \<Rightarrow> retry_err option \<times> retry_state" where
  "attempt srv st =
     (case st of (resp0, req, w) \<Rightarrow>
        (case http_Do srv req w of
           (Inr resp, req1, w1) \<Rightarrow>
             if StatusCode resp < 500 then (None, (Some resp, req1, w1))
             else if StatusCode resp \<ge> 500 then
               (Some (Unrecoverable (UnrecoverableStatus (StatusCode resp))), (Some resp, req1, w1))
             else (None, (Some resp, req1, w1))
         | (Inl err, req1, w1) \<Rightarrow> (Some (Plain err), (None, req1, w1))))"

definition onRetry :: "nat \<Rightarrow> error \<Rightarrow> retry_state \<Rightarrow> retry_state" where
  "onRetry n err st =
     (case st of (resp, req, w) \<Rightarrow> (resp, req, w\<lparr>retry_log := retry_log w @ [(n, err)]\<rparr>))"

definition sleep :: "retry_state \<Rightarrow> retry_state" where
  "sleep st = (case st of (resp, req, w) \<Rightarrow> (resp, req, w\<lparr>sleeps := Suc (sleeps w)\<rparr>))"

text \<open>
  \<^verbatim>\<open>retryDo\<close> returns the pair \<^verbatim>\<open>(*http.Response, error)\<close>; the model returns with it
  the request as the call leaves it and the world. The request is the pointee: both
  callers pass a request they have just built.
\<close>

definition retryDo ::
  "server \<Rightarrow> request \<Rightarrow> world \<Rightarrow> (response option \<times> error option) \<times> request \<times> world" where
  "retryDo srv req w =
     (case (case Body req of
              None \<Rightarrow> (None, req)
            | Some body \<Rightarrow>
                (case copyBody body of (originalBody, err) \<Rightarrow> (err, resetBody req originalBody)))
      of
        (Some err, req1) \<Rightarrow> ((None, Some err), req1, w)
      | (None, req1) \<Rightarrow>
          (case retry_Do 5 (attempt srv) onRetry sleep (None, req1, w) of
             (Some err, (resp, req2, w2)) \<Rightarrow>
               ((None, Some (Wrap err ''error making request'')), req2, w2)
           | (None, (resp, req2, w2)) \<Rightarrow> ((resp, None), req2, w2)))"

text \<open>
  Two readings of one call of \<^verbatim>\<open>http.Client.Do\<close>, number \<open>n\<close>: the transport fails
  (the context is done, or the exchange ends in an error), or a response arrives.
\<close>

definition transport_fails :: "server \<Rightarrow> go_context \<Rightarrow> nat \<Rightarrow> bool" where
  "transport_fails srv ctx n = (case ctx n of Some e \<Rightarrow> True | None \<Rightarrow> isl (reply (srv n)))"

definition answers :: "server \<Rightarrow> go_context \<Rightarrow> nat \<Rightarrow> response \<Rightarrow> bool" where
  "answers srv ctx n resp = (ctx n = None \<and> reply (srv n) = Inr resp)"

subsection \<open>Requests, responses and servers of the test suite\<close>

definition get_req :: request where
  "get_req = \<lparr>Method = ''GET'', URL = ''http://localhost:9117/api'', Ctx = Background,
     Body = None, GetBody = None, BasicAuth = None, ContentType = None\<rparr>"

definition post_req :: request where
  "post_req = \<lparr>Method = ''POST'', URL = ''http://localhost:9117/api'', Ctx = Background,
     Body = Some (NewBuffer ''q=ubuntu''), GetBody = Some ''q=ubuntu'', BasicAuth = None,
     ContentType = Some ''application/x-www-form-urlencoded''\<rparr>"

definition ok_resp :: response where
  "ok_resp = \<lparr>StatusCode = 200, RespBody = NewBuffer ''<rss></rss>''\<rparr>"

definition unavailable :: response where
  "unavailable = \<lparr>StatusCode = 503, RespBody = NewBuffer []\<rparr>"

definition not_found :: response where
  "not_found = \<lparr>StatusCode = 404, RespBody = NewBuffer []\<rparr>"

text \<open>The server of \<^verbatim>\<open>TestRetryOn5xxError\<close>: 503 twice, then 200.\<close>

definition flaky :: server where
  "flaky n = \<lparr>taken = 0, reply = (if n < 2 then Inr unavailable else Inr ok_resp)\<rparr>"

definition always_404 :: server where
  "always_404 n = \<lparr>taken = 0, reply = Inr not_found\<rparr>"

text \<open>
  A server that reads the whole body of the first request and then drops the connection.
  From the second call on the transport finds \<^verbatim>\<open>req.Body\<close> drained and refuses to send
  (the request still announces a content length of 8).
\<close>

definition drops_first :: server where
  "drops_first n =
     (if n = 0 then \<lparr>taken = 8, reply = Inl (NetError ''connection reset by peer'')\<rparr>
      else \<lparr>taken = 8, reply = Inl (NetError ''http: ContentLength=8 with Body length 0'')\<rparr>)"



section \<open>Strings and bytes\<close>

definition byte :: "char \<Rightarrow> nat" where
  "byte c = of_char c"

definition is_lower :: "char \<Rightarrow> bool" where
  "is_lower c = (97 \<le> byte c \<and> byte c \<le> 122)"

definition is_upper :: "char \<Rightarrow> bool" where
  "is_upper c = (65 \<le> byte c \<and> byte c \<le> 90)"

definition is_digit :: "char \<Rightarrow> bool" where
  "is_digit c = (48 \<le> byte c \<and> byte c \<le> 57)"

definition ToLower :: "string \<Rightarrow> string" where
  "ToLower s = map (\<lambda>c. if is_upper c then char_of (byte c + 32) else c) s"

definition HasPrefix :: "string \<Rightarrow> string \<Rightarrow> bool" where
  "HasPrefix s p = prefix p s"

definition HasSuffix :: "string \<Rightarrow> string \<Rightarrow> bool" where
  "HasSuffix s p = suffix p s"

text \<open>\<^verbatim>\<open>strings.IndexByte\<close> and \<^verbatim>\<open>strings.LastIndexByte\<close>; \<^verbatim>\<open>None\<close> is the result -1.\<close>

definition IndexByte :: "string \<Rightarrow> char \<Rightarrow> nat option" where
  "IndexByte s c = (if c \<in> set s then Some (length (takeWhile (\<lambda>x. x \<noteq> c) s)) else None)"

definition LastIndexByte :: "string \<Rightarrow> char \<Rightarrow> nat option" where
  "LastIndexByte s c =
     (if c \<in> set s then Some (length s - Suc (length (takeWhile (\<lambda>x. x \<noteq> c) (rev s)))) else None)"

text \<open>\<^verbatim>\<open>strings.Index\<close> for a separator of any length.\<close>

fun Index :: "string \<Rightarrow> string \<Rightarrow> nat option" where
  "Index [] sub = (if sub = [] then Some 0 else None)"
| "Index (c # s) sub = (if prefix sub (c # s) then Some 0 else map_option Suc (Index s sub))"

text \<open>\<^verbatim>\<open>strings.Contains\<close>.\<close>

definition Contains :: "string \<Rightarrow> string \<Rightarrow> bool" where
  "Contains s sub = (Index s sub \<noteq> None)"

text \<open>\<^verbatim>\<open>strings.Cut\<close> with a one-byte separator: before, after, found.\<close>

definition Cut :: "string \<Rightarrow> char \<Rightarrow> string \<times> string \<times> bool" where
  "Cut s sep =
     (case IndexByte s sep of
        Some i \<Rightarrow> (take i s, drop (Suc i) s, True)
      | None \<Rightarrow> (s, [], False))"

section \<open>\<^verbatim>\<open>net/url\<close> of the Go standard library (Go 1.19, the version of \<^verbatim>\<open>go.mod\<close>)\<close>

text \<open>
  The package is not part of the repository. \<^verbatim>\<open>buildUrl\<close> and \<^verbatim>\<open>getRawCtx\<close> call
  \<^verbatim>\<open>url.JoinPath\<close>, \<^verbatim>\<open>url.Parse\<close>, \<^verbatim>\<open>URL.String\<close> and \<^verbatim>\<open>Values.Encode\<close>; they are modelled
  function by function after the library's source.
\<close>

datatype encoding =
    encodePath
  | encodePathSegment
  | encodeHost
  | encodeZone
  | encodeUserPassword
  | encodeQueryComponent
  | encodeFragment

record Userinfo =
  username :: string
  password :: string
  passwordSet :: bool

record URL =
  Scheme :: string
  Opaque :: string
  User :: "Userinfo option"
  Host_url :: string
  Path :: string
  RawPath :: string
  OmitHost :: bool
  ForceQuery :: bool
  RawQuery :: string
  Fragment :: string
  RawFragment :: string

definition URL0 :: URL where
  "URL0 = \<lparr>Scheme = [], Opaque = [], User = None, Host_url = [], Path = [], RawPath = [],
     OmitHost = False, ForceQuery = False, RawQuery = [], Fragment = [], RawFragment = []\<rparr>"

definition ishex :: "char \<Rightarrow> bool" where
  "ishex c = (is_digit c \<or> (97 \<le> byte c \<and> byte c \<le> 102) \<or> (65 \<le> byte c \<and> byte c \<le> 70))"

definition unhex :: "char \<Rightarrow> nat" where
  "unhex c =
     (if is_digit c then byte c - 48
      else if 97 \<le> byte c \<and> byte c \<le> 102 then byte c - 97 + 10
      else if 65 \<le> byte c \<and> byte c \<le> 70 then byte c - 65 + 10
      else 0)"

definition upperhex :: "nat \<Rightarrow> char" where
  "upperhex n = ''0123456789ABCDEF'' ! (n mod 16)"

text \<open>The sub-delimiters a host may carry unescaped, with \<^verbatim>\<open>:\<close>, \<^verbatim>\<open>[\<close>, \<^verbatim>\<open>]\<close>, \<^verbatim>\<open><\<close>, \<^verbatim>\<open>>\<close> and the double quote.\<close>

definition host_marks :: string where
  "host_marks = ''!$&'' @ [char_of (39::nat)] @ ''()*+,;=:[]<>'' @ [char_of (34::nat)]"

definition shouldEscape :: "char \<Rightarrow> encoding \<Rightarrow> bool" where
  "shouldEscape c mode =
     (if is_lower c \<or> is_upper c \<or> is_digit c then False
      else if (mode = encodeHost \<or> mode = encodeZone) \<and> c \<in> set host_marks then False
      else if c \<in> set ''-_.~'' then False
      else if c \<in> set ''$&+,/:;=?@'' then
        (case mode of
           encodePath \<Rightarrow> c = CHR ''?''
         | encodePathSegment \<Rightarrow> c \<in> set ''/;,?''
         | encodeUserPassword \<Rightarrow> c \<in> set ''@/?:''
         | encodeQueryComponent \<Rightarrow> True
         | encodeFragment \<Rightarrow> False
         | _ \<Rightarrow> True)
      else if mode = encodeFragment \<and> c \<in> set ''!()*'' then False
      else True)"

text \<open>
  \<^verbatim>\<open>unescape\<close>: the first loop checks that every \<^verbatim>\<open>%\<close> starts a well-formed escape (and,
  for a host, that no byte needs escaping); the second decodes.
\<close>

fun unescape_check :: "encoding \<Rightarrow> string \<Rightarrow> error option" where
  "unescape_check mode [] = None"
| "unescape_check mode (c # s) =
     (if c = CHR ''%'' then
        (case s of
           a # b # rest \<Rightarrow>
             if \<not> ishex a \<or> \<not> ishex b then Some (EscapeError [c, a, b])
             else if mode = encodeHost \<and> unhex a < 8 \<and> [c, a, b] \<noteq> ''%25''
               then Some (EscapeError [c, a, b])
             else if mode = encodeZone \<and> [c, a, b] \<noteq> ''%25'' \<and>
                     char_of (unhex a * 16 + unhex b) \<noteq> CHR '' '' \<and>
                     shouldEscape (char_of (unhex a * 16 + unhex b)) encodeHost
               then Some (EscapeError [c, a, b])
             else unescape_check mode rest
         | _ \<Rightarrow> Some (EscapeError (c # s)))
      else if c = CHR ''+'' then unescape_check mode s
      else if (mode = encodeHost \<or> mode = encodeZone) \<and> byte c < 128 \<and> shouldEscape c encodeHost
        then Some (InvalidHostError [c])
      else unescape_check mode s)"

fun unescape_decode :: "encoding \<Rightarrow> string \<Rightarrow> string" where
  "unescape_decode mode [] = []"
| "unescape_decode mode (c # s) =
     (if c = CHR ''%'' then
        (case s of
           a # b # rest \<Rightarrow> char_of (unhex a * 16 + unhex b) # unescape_decode mode rest
         | _ \<Rightarrow> [])
      else if c = CHR ''+'' then
        (if mode = encodeQueryComponent then CHR '' '' else CHR ''+'') # unescape_decode mode s
      else c # unescape_decode mode s)"

definition unescape :: "string \<Rightarrow> encoding \<Rightarrow> error + string" where
  "unescape s mode =
     (case unescape_check mode s of
        Some err \<Rightarrow> Inl err
      | None \<Rightarrow> Inr (unescape_decode mode s))"

definition escape :: "string \<Rightarrow> encoding \<Rightarrow> string" where
  "escape s mode =
     concat (map (\<lambda>c. if shouldEscape c mode then
                        (if c = CHR '' '' \<and> mode = encodeQueryComponent then ''+''
                         else [CHR ''%'', upperhex (byte c div 16), upperhex (byte c mod 16)])
                      else [c]) s)"

definition QueryEscape :: "string \<Rightarrow> string" where
  "QueryEscape s = escape s encodeQueryComponent"

definition validEncoded :: "string \<Rightarrow> encoding \<Rightarrow> bool" where
  "validEncoded s mode =
     list_all (\<lambda>c. if c \<in> set (''!$&'' @ [char_of (39::nat)] @ ''()*+,;=:@[]%'') then True
                   else \<not> shouldEscape c mode) s"

definition validOptionalPort :: "string \<Rightarrow> bool" where
  "validOptionalPort port =
     (case port of [] \<Rightarrow> True | c # ds \<Rightarrow> c = CHR '':'' \<and> list_all is_digit ds)"

definition validUserinfo :: "string \<Rightarrow> bool" where
  "validUserinfo s =
     list_all (\<lambda>r. is_upper r \<or> is_lower r \<or> is_digit r \<or>
                   r \<in> set (''-._:~!$&'' @ [char_of (39::nat)] @ ''()*+,;=%@'')) s"

definition stringContainsCTLByte :: "string \<Rightarrow> bool" where
  "stringContainsCTLByte s = list_ex (\<lambda>b. byte b < 32 \<or> byte b = 127) s"

fun getScheme_scan :: "string \<Rightarrow> nat \<Rightarrow> string \<Rightarrow> error + string \<times> string" where
  "getScheme_scan rawURL i [] = Inr ([], rawURL)"
| "getScheme_scan rawURL i (c # cs) =
     (if is_lower c \<or> is_upper c then getScheme_scan rawURL (Suc i) cs
      else if is_digit c \<or> c = CHR ''+'' \<or> c = CHR ''-'' \<or> c = CHR ''.'' then
        (if i = 0 then Inr ([], rawURL) else getScheme_scan rawURL (Suc i) cs)
      else if c = CHR '':'' then
        (if i = 0 then Inl (URLError ''missing protocol scheme'') else Inr (take i rawURL, cs))
      else Inr ([], rawURL))"

definition getScheme :: "string \<Rightarrow> error + string \<times> string" where
  "getScheme rawURL = getScheme_scan rawURL 0 rawURL"

definition parseHost :: "string \<Rightarrow> error + string" where
  "parseHost host =
     (let bracket =
        (if HasPrefix host ''['' then
           (case LastIndexByte host CHR '']'' of
              None \<Rightarrow> Some (Inl (URLError ''missing ] in host''))
            | Some i \<Rightarrow>
                if \<not> validOptionalPort (drop (Suc i) host)
                  then Some (Inl (URLError ''invalid port after host''))
                else
                  (case Index (take i host) ''%25'' of
                     None \<Rightarrow> None
                   | Some zone \<Rightarrow>
                       (case unescape (take zone host) encodeHost of
                          Inl err \<Rightarrow> Some (Inl err)
                        | Inr host1 \<Rightarrow>
                            (case unescape (drop zone (take i host)) encodeZone of
                               Inl err \<Rightarrow> Some (Inl err)
                             | Inr host2 \<Rightarrow>
                                 (case unescape (drop i host) encodeHost of
                                    Inl err \<Rightarrow> Some (Inl err)
                                  | Inr host3 \<Rightarrow> Some (Inr (host1 @ host2 @ host3)))))))
         else
           (case LastIndexByte host CHR '':'' of
              None \<Rightarrow> None
            | Some i \<Rightarrow>
                if \<not> validOptionalPort (drop i host)
                  then Some (Inl (URLError ''invalid port after host''))
                else None))
      in case bracket of
           Some r \<Rightarrow> r
         | None \<Rightarrow> unescape host encodeHost)"

definition parseAuthority :: "string \<Rightarrow> error + Userinfo option \<times> string" where
  "parseAuthority authority =
     (case LastIndexByte authority CHR ''@'' of
        None \<Rightarrow>
          (case parseHost authority of Inl err \<Rightarrow> Inl err | Inr host \<Rightarrow> Inr (None, host))
      | Some i \<Rightarrow>
          (case parseHost (drop (Suc i) authority) of
             Inl err \<Rightarrow> Inl err
           | Inr host \<Rightarrow>
               (let userinfo = take i authority in
                if \<not> validUserinfo userinfo then Inl (URLError ''net/url: invalid userinfo'')
                else if CHR '':'' \<notin> set userinfo then
                  (case unescape userinfo encodeUserPassword of
                     Inl err \<Rightarrow> Inl err
                   | Inr u \<Rightarrow> Inr (Some \<lparr>username = u, password = [], passwordSet = False\<rparr>, host))
                else
                  (case Cut userinfo CHR '':'' of (un, pw, found) \<Rightarrow>
                     (case unescape un encodeUserPassword of
                        Inl err \<Rightarrow> Inl err
                      | Inr u \<Rightarrow>
                          (case unescape pw encodeUserPassword of
                             Inl err \<Rightarrow> Inl err
                           | Inr p \<Rightarrow>
                               Inr (Some \<lparr>username = u, password = p, passwordSet = True\<rparr>,
                                    host)))))))"

text \<open>
  \<^verbatim>\<open>setPath\<close> and \<^verbatim>\<open>setFragment\<close> change the URL and return an error; on an error the URL
  is left as it was.
\<close>

definition setPath :: "URL \<Rightarrow> string \<Rightarrow> URL \<times> error option" where
  "setPath u p =
     (case unescape p encodePath of
        Inl err \<Rightarrow> (u, Some err)
      | Inr path \<Rightarrow>
          (u\<lparr>Path := path, RawPath := (if p = escape path encodePath then [] else p)\<rparr>, None))"

definition EscapedPath :: "URL \<Rightarrow> string" where
  "EscapedPath u =
     (if RawPath u \<noteq> [] \<and> validEncoded (RawPath u) encodePath \<and>
         unescape (RawPath u) encodePath = Inr (Path u)
      then RawPath u
      else if Path u = ''*'' then ''*''
      else escape (Path u) encodePath)"

definition setFragment :: "URL \<Rightarrow> string \<Rightarrow> URL \<times> error option" where
  "setFragment u f =
     (case unescape f encodeFragment of
        Inl err \<Rightarrow> (u, Some err)
      | Inr frag \<Rightarrow>
          (u\<lparr>Fragment := frag,
             RawFragment := (if f = escape frag encodeFragment then [] else f)\<rparr>, None))"

definition EscapedFragment :: "URL \<Rightarrow> string" where
  "EscapedFragment u =
     (if RawFragment u \<noteq> [] \<and> validEncoded (RawFragment u) encodeFragment \<and>
         unescape (RawFragment u) encodeFragment = Inr (Fragment u)
      then RawFragment u
      else escape (Fragment u) encodeFragment)"

text \<open>\<^verbatim>\<open>parse(rawURL, viaRequest)\<close> with \<^verbatim>\<open>viaRequest = false\<close>, as \<^verbatim>\<open>url.Parse\<close> calls it.\<close>

definition parse :: "string \<Rightarrow> error + URL" where
  "parse rawURL =
     (if stringContainsCTLByte rawURL
        then Inl (URLError ''net/url: invalid control character in URL'')
      else if rawURL = ''*'' then Inr (URL0\<lparr>Path := ''*''\<rparr>)
      else
        (case getScheme rawURL of
           Inl err \<Rightarrow> Inl err
         | Inr (scheme, rest0) \<Rightarrow>
             (let url0 = URL0\<lparr>Scheme := ToLower scheme\<rparr>;
                  force = (HasSuffix rest0 ''?'' \<and> count_list rest0 CHR ''?'' = 1);
                  rest = (if force then butlast rest0 else fst (Cut rest0 CHR ''?''));
                  url = (if force then url0\<lparr>ForceQuery := True\<rparr>
                         else url0\<lparr>RawQuery := fst (snd (Cut rest0 CHR ''?''))\<rparr>)
              in if \<not> HasPrefix rest ''/'' \<and> Scheme url \<noteq> [] then Inr (url\<lparr>Opaque := rest\<rparr>)
                 else if \<not> HasPrefix rest ''/'' \<and> CHR '':'' \<in> set (fst (Cut rest CHR ''/''))
                   then Inl (URLError ''first path segment in URL cannot contain colon'')
                 else if (Scheme url \<noteq> [] \<or> \<not> HasPrefix rest ''///'') \<and> HasPrefix rest ''//'' then
                   (let authority0 = drop 2 rest;
                        authority = (case IndexByte authority0 CHR ''/'' of
                                       Some i \<Rightarrow> take i authority0 | None \<Rightarrow> authority0);
                        rest1 = (case IndexByte authority0 CHR ''/'' of
                                   Some i \<Rightarrow> drop i authority0 | None \<Rightarrow> [])
                    in case parseAuthority authority of
                         Inl err \<Rightarrow> Inl err
                       | Inr (user, host) \<Rightarrow>
                           (case setPath (url\<lparr>User := user, Host_url := host\<rparr>) rest1 of
                              (url1, Some err) \<Rightarrow> Inl err
                            | (url1, None) \<Rightarrow> Inr url1))
                 else
                   (case setPath (if Scheme url \<noteq> [] \<and> HasPrefix rest ''/''
                                  then url\<lparr>OmitHost := True\<rparr> else url) rest of
                      (url1, Some err) \<Rightarrow> Inl err
                    | (url1, None) \<Rightarrow> Inr url1))))"

definition Parse :: "string \<Rightarrow> error + URL" where
  "Parse rawURL =
     (case Cut rawURL CHR ''#'' of (u, frag, found) \<Rightarrow>
        (case parse u of
           Inl err \<Rightarrow> Inl (ParseError u err)
         | Inr url \<Rightarrow>
             if frag = [] then Inr url
             else
               (case setFragment url frag of
                  (url1, Some err) \<Rightarrow> Inl (ParseError rawURL err)
                | (url1, None) \<Rightarrow> Inr url1)))"

definition Userinfo_String :: "Userinfo \<Rightarrow> string" where
  "Userinfo_String u =
     escape (username u) encodeUserPassword @
     (if passwordSet u then '':'' @ escape (password u) encodeUserPassword else [])"

definition URL_String :: "URL \<Rightarrow> string" where
  "URL_String u =
     (let buf0 = (if Scheme u \<noteq> [] then Scheme u @ '':'' else []);
          buf1 =
            (if Opaque u \<noteq> [] then buf0 @ Opaque u
             else
               (let buf2 =
                      (if Scheme u \<noteq> [] \<or> Host_url u \<noteq> [] \<or> User u \<noteq> None then
                         (if OmitHost u \<and> Host_url u = [] \<and> User u = None then buf0
                          else
                            buf0 @
                            (if Host_url u \<noteq> [] \<or> Path u \<noteq> [] \<or> User u \<noteq> None then ''//'' else []) @
                            (case User u of None \<Rightarrow> [] | Some ui \<Rightarrow> Userinfo_String ui @ ''@'') @
                            (if Host_url u \<noteq> [] then escape (Host_url u) encodeHost else []))
                       else buf0);
                    path = EscapedPath u;
                    buf3 = (if path \<noteq> [] \<and> hd path \<noteq> CHR ''/'' \<and> Host_url u \<noteq> [] then buf2 @ ''/''
                            else buf2);
                    buf4 = (if buf3 = [] \<and> CHR '':'' \<in> set (fst (Cut path CHR ''/''))
                            then buf3 @ ''./'' else buf3)
                in buf4 @ path));
          buf5 = (if ForceQuery u \<or> RawQuery u \<noteq> [] then buf1 @ ''?'' @ RawQuery u else buf1)
      in if Fragment u \<noteq> [] then buf5 @ ''#'' @ EscapedFragment u else buf5)"

section \<open>\<^verbatim>\<open>path.Clean\<close> and \<^verbatim>\<open>path.Join\<close>\<close>

text \<open>
  \<^verbatim>\<open>path.Clean\<close> works on the elements between slashes: empty elements and \<^verbatim>\<open>.\<close> go, an
  inner \<^verbatim>\<open>..\<close> takes the element before it with it, a \<^verbatim>\<open>..\<close> at the root of a rooted path
  goes, and leading \<^verbatim>\<open>..\<close> elements of a relative path stay. \<^verbatim>\<open>out\<close> is the result so far,
  last element first.
\<close>

fun split_slash :: "string \<Rightarrow> string list" where
  "split_slash [] = [[]]"
| "split_slash (c # s) =
     (if c = CHR ''/'' then [] # split_slash s
      else (case split_slash s of e # es \<Rightarrow> (c # e) # es | [] \<Rightarrow> [[c]]))"

fun join_slash :: "string list \<Rightarrow> string" where
  "join_slash [] = []"
| "join_slash [e] = e"
| "join_slash (e # es) = e @ ''/'' @ join_slash es"

fun clean_elems :: "bool \<Rightarrow> string list \<Rightarrow> string list \<Rightarrow> string list" where
  "clean_elems rooted out [] = rev out"
| "clean_elems rooted out (e # es) =
     (if e = [] \<or> e = ''.'' then clean_elems rooted out es
      else if e = ''..'' then
        (case out of
           [] \<Rightarrow> if rooted then clean_elems rooted [] es else clean_elems rooted [''..''] es
         | t # out1 \<Rightarrow>
             if t = ''..'' then clean_elems rooted (''..'' # out) es
             else clean_elems rooted out1 es)
      else clean_elems rooted (e # out) es)"

definition path_Clean :: "string \<Rightarrow> string" where
  "path_Clean p =
     (if p = [] then ''.''
      else
        (let rooted = (hd p = CHR ''/'');
             r = (if rooted then ''/'' else []) @ join_slash (clean_elems rooted [] (split_slash p))
         in if r = [] then ''.'' else r))"

fun join_buf :: "string \<Rightarrow> string list \<Rightarrow> string" where
  "join_buf buf [] = buf"
| "join_buf buf (e # elem) =
     (if buf \<noteq> [] \<or> e \<noteq> [] then join_buf ((if buf \<noteq> [] then buf @ ''/'' else buf) @ e) elem
      else join_buf buf elem)"

definition path_Join :: "string list \<Rightarrow> string" where
  "path_Join elem = (if concat elem = [] then [] else path_Clean (join_buf [] elem))"

section \<open>\<^verbatim>\<open>URL.JoinPath\<close>, \<^verbatim>\<open>url.JoinPath\<close> and \<^verbatim>\<open>Values.Encode\<close>\<close>

definition URL_JoinPath :: "URL \<Rightarrow> string list \<Rightarrow> URL" where
  "URL_JoinPath u elem =
     (if elem = [] then u
      else
        (let elem1 = EscapedPath u # elem;
             p0 = path_Join elem1;
             p = (if HasSuffix (last elem1) ''/'' \<and> \<not> HasSuffix p0 ''/'' then p0 @ ''/'' else p0)
         in fst (setPath u p)))"

definition JoinPath :: "string \<Rightarrow> string list \<Rightarrow> string \<times> error option" where
  "JoinPath base elem =
     (case Parse base of
        Inl err \<Rightarrow> ([], Some err)
      | Inr url \<Rightarrow> (URL_String (URL_JoinPath url elem), None))"

text \<open>
  A Go \<^verbatim>\<open>map[string]string\<close> is a list of key-value pairs with distinct keys; a nil map is
  \<^verbatim>\<open>None\<close>. \<^verbatim>\<open>buildUrl\<close> adds each pair to a \<^verbatim>\<open>url.Values\<close>, so every key has one value, and
  \<^verbatim>\<open>Values.Encode\<close> writes the pairs sorted by key.
\<close>

type_synonym gomap = "(string \<times> string) list"

fun join_amp :: "string list \<Rightarrow> string" where
  "join_amp [] = []"
| "join_amp [e] = e"
| "join_amp (e # es) = e @ ''&'' @ join_amp es"

definition Values_Encode :: "gomap \<Rightarrow> string" where
  "Values_Encode v =
     join_amp (map (\<lambda>(k, x). QueryEscape k @ ''='' @ QueryEscape x) (sort_key fst v))"

section \<open>The client\<close>

text \<open>
  Modelled from the spec: the declarations of \<^verbatim>\<open>Config\<close> and \<^verbatim>\<open>Client\<close> (the file that holds
  \<^verbatim>\<open>NewClient\<close>) are not among the sources. The configuration has the fields the spec's
  data model lists and the tests set: host, API key, direct-mode flag and basic-auth
  credentials. The client's \<^verbatim>\<open>http\<close> field is the \<^verbatim>\<open>server\<close> parameter of the model.
\<close>

record Config =
  Host :: string
  APIKey :: string
  DirectMode :: bool
  BasicUser :: string
  BasicPass :: string

record Client =
  cfg :: Config

text \<open>A call either returns or panics.\<close>

datatype 'a outcome = Return 'a | Panic string

text \<open>
  \<^verbatim>\<open>buildUrl\<close>. Both errors are discarded: when \<^verbatim>\<open>url.JoinPath\<close> fails, \<^verbatim>\<open>joinedUrl\<close> is the
  empty string; when \<^verbatim>\<open>url.Parse\<close> fails, \<^verbatim>\<open>parsedUrl\<close> is nil and the assignment to its
  \<^verbatim>\<open>RawQuery\<close> panics.
\<close>

definition apiBase :: string where
  "apiBase = ''/api/v2.0/indexers/''"

definition buildUrl :: "Client \<Rightarrow> string \<Rightarrow> gomap option \<Rightarrow> string outcome" where
  "buildUrl c endpoint params =
     (let queryParams = (case params of None \<Rightarrow> [] | Some m \<Rightarrow> m);
          joinedUrl = fst (JoinPath (Host (cfg c)) [apiBase, endpoint])
      in case Parse joinedUrl of
           Inl err \<Rightarrow> Panic ''invalid memory address or nil pointer dereference''
         | Inr parsedUrl \<Rightarrow> Return (URL_String (parsedUrl\<lparr>RawQuery := Values_Encode queryParams\<rparr>)))"

text \<open>
  \<^verbatim>\<open>http.NewRequestWithContext\<close> for the method \<^verbatim>\<open>GET\<close> or \<^verbatim>\<open>POST\<close> and a non-nil context,
  as the client calls it: it fails exactly when the URL does not parse.
\<close>

definition NewRequestWithContext ::
  "go_context \<Rightarrow> string \<Rightarrow> string \<Rightarrow> reader option \<Rightarrow> error + request" where
  "NewRequestWithContext ctx method url body =
     (case Parse url of
        Inl err \<Rightarrow> Inl err
      | Inr u \<Rightarrow>
          Inr \<lparr>Method = method, URL = url, Ctx = ctx, Body = body,
               GetBody = map_option unread body, BasicAuth = None, ContentType = None\<rparr>)"

definition getRawCtx ::
  "Client \<Rightarrow> server \<Rightarrow> go_context \<Rightarrow> string \<Rightarrow> world \<Rightarrow> (response option \<times> error option) \<times> world" where
  "getRawCtx c srv ctx reqUrl w =
     (case NewRequestWithContext ctx ''GET'' reqUrl None of
        Inl err \<Rightarrow> ((None, Some (Wrap err ''could not build request'')), w)
      | Inr req0 \<Rightarrow>
          (let req = (if BasicUser (cfg c) \<noteq> [] \<and> BasicPass (cfg c) \<noteq> []
                      then req0\<lparr>BasicAuth := Some (BasicUser (cfg c), BasicPass (cfg c))\<rparr>
                      else req0)
           in case retryDo srv req w of
                ((resp, Some err), req1, w1) \<Rightarrow>
                  ((None, Some (Wrap err (''error making get request: '' @ reqUrl))), w1)
              | ((resp, None), req1, w1) \<Rightarrow> ((resp, None), w1)))"

definition getCtx ::
  "Client \<Rightarrow> server \<Rightarrow> go_context \<Rightarrow> string \<Rightarrow> gomap option \<Rightarrow> world \<Rightarrow>
   ((response option \<times> error option) \<times> world) outcome" where
  "getCtx c srv ctx endpoint opts w =
     (case buildUrl c endpoint opts of
        Panic msg \<Rightarrow> Panic msg
      | Return reqUrl \<Rightarrow> Return (getRawCtx c srv ctx reqUrl w))"

subsection \<open>The decoded documents\<close>

text \<open>
  Modelled from the spec: the declarations of \<^verbatim>\<open>Rss\<close> and \<^verbatim>\<open>Indexers\<close> are not among the
  sources. An item carries its scalar fields, the RSS-level category list and the
  extension attributes in wire order (the tests build items of this shape); an indexer
  record carries an identifier and a title.
\<close>

record attr =
  Name :: string
  Value :: string

record item =
  Title :: string
  Guid :: string
  Link :: string
  PubDate :: string
  Size :: string
  Description :: string
  Category :: "string list"
  EnclosureURL :: string
  Attr :: "attr list"

record Rss =
  Item :: "item list"






text \<open>
  \<^verbatim>\<open>bufio.Reader.Peek(n)\<close> on a fresh reader with the default buffer of 4096 bytes; only
  the error matters to the client. \<^verbatim>\<open>Peek(0)\<close> asks for nothing and returns no error.
\<close>

definition Peek :: "reader \<Rightarrow> nat \<Rightarrow> error option" where
  "Peek r n =
     (if n = 0 then None
      else if 4096 < n then Some ErrBufferFull
      else if n \<le> length (unread r) then None
      else (case fault r of Some err \<Rightarrow> Some err | None \<Rightarrow> Some EOF))"

subsection \<open>\<^verbatim>\<open>GetIndexersCtx\<close> and \<^verbatim>\<open>GetTorrentsCtx\<close>\<close>




subsection \<open>Clients, documents and decoders of the test suite\<close>

definition proxy_client :: Client where
  "proxy_client = \<lparr>cfg = \<lparr>Host = ''http://localhost:9117'', APIKey = ''test-key'',
     DirectMode = False, BasicUser = [], BasicPass = []\<rparr>\<rparr>"

text \<open>The client of the case "direct mode with endpoint" of \<^verbatim>\<open>TestBuildURL\<close>.\<close>

definition direct_client :: Client where
  "direct_client = \<lparr>cfg = \<lparr>Host = ''https://tracker.example.com/api/torznab'', APIKey = [],
     DirectMode = True, BasicUser = [], BasicPass = []\<rparr>\<rparr>"

definition bad_host_client :: Client where
  "bad_host_client = \<lparr>cfg = \<lparr>Host = ''http://local host:9117'', APIKey = [],
     DirectMode = False, BasicUser = [], BasicPass = []\<rparr>\<rparr>"







definition refusing :: server where
  "refusing n = \<lparr>taken = 0, reply = Inl (NetError ''connection refused'')\<rparr>"


section \<open>The attribute extraction model\<close>

text \<open>
  Modelled from the spec: the file that declares \<^verbatim>\<open>TorznabItem\<close>, \<^verbatim>\<open>ToTorznabItems\<close> and
  the accessors is not among the sources; only its tests are. The definitions follow
  the spec's data model (AttributeIndex, TypedItemView) and its accessor rules: the
  index maps an attribute name to its values in wire order; a numeric accessor reads the
  first value and yields zero when the attribute is absent or does not parse; peers are
  the \<^verbatim>\<open>peers\<close> attribute or else seeders plus leechers; a volume factor is 1.0 when its
  attribute is absent; tags are the values of \<^verbatim>\<open>tag\<close>; categories are the values of
  \<^verbatim>\<open>category\<close> or else the RSS-level list. The attribute names are those of the tests.
  How a number is parsed is not part of the spec: the parsers are parameters.
\<close>

type_synonym AttributeIndex = "string \<rightharpoonup> string list"

record TorznabItem =
  raw :: item
  Attributes :: AttributeIndex

record strconv =
  Atoi :: "string \<Rightarrow> int option"
  ParseFloat :: "string \<Rightarrow> real option"

definition index_attr :: "AttributeIndex \<Rightarrow> attr \<Rightarrow> AttributeIndex" where
  "index_attr m a = m(Name a \<mapsto> (case m (Name a) of None \<Rightarrow> [] | Some vs \<Rightarrow> vs) @ [Value a])"

definition build_index :: "attr list \<Rightarrow> AttributeIndex" where
  "build_index as = foldl index_attr Map.empty as"

definition view :: "item \<Rightarrow> TorznabItem" where
  "view it = \<lparr>raw = it, Attributes = build_index (Attr it)\<rparr>"

definition ToTorznabItems :: "Rss \<Rightarrow> TorznabItem list" where
  "ToTorznabItems rss = map view (Item rss)"

definition GetAttrValues :: "TorznabItem \<Rightarrow> string \<Rightarrow> string list" where
  "GetAttrValues v name = (case Attributes v name of None \<Rightarrow> [] | Some vs \<Rightarrow> vs)"

definition GetAttr :: "TorznabItem \<Rightarrow> string \<Rightarrow> string" where
  "GetAttr v name = (case GetAttrValues v name of [] \<Rightarrow> [] | x # xs \<Rightarrow> x)"

definition GetAttrInt :: "strconv \<Rightarrow> TorznabItem \<Rightarrow> string \<Rightarrow> int" where
  "GetAttrInt P v name =
     (case GetAttrValues v name of
        [] \<Rightarrow> 0
      | x # xs \<Rightarrow> (case Atoi P x of None \<Rightarrow> 0 | Some n \<Rightarrow> n))"

definition GetAttrFloat :: "strconv \<Rightarrow> TorznabItem \<Rightarrow> string \<Rightarrow> real" where
  "GetAttrFloat P v name =
     (case GetAttrValues v name of
        [] \<Rightarrow> 0
      | x # xs \<Rightarrow> (case ParseFloat P x of None \<Rightarrow> 0 | Some r \<Rightarrow> r))"

definition Seeders :: "strconv \<Rightarrow> TorznabItem \<Rightarrow> int" where
  "Seeders P v = GetAttrInt P v ''seeders''"

definition Leechers :: "strconv \<Rightarrow> TorznabItem \<Rightarrow> int" where
  "Leechers P v = GetAttrInt P v ''leechers''"

definition Peers :: "strconv \<Rightarrow> TorznabItem \<Rightarrow> int" where
  "Peers P v =
     (if GetAttrValues v ''peers'' \<noteq> [] then GetAttrInt P v ''peers''
      else Seeders P v + Leechers P v)"

definition DownloadVolumeFactor :: "strconv \<Rightarrow> TorznabItem \<Rightarrow> real" where
  "DownloadVolumeFactor P v =
     (if GetAttrValues v ''downloadvolumefactor'' = [] then 1
      else GetAttrFloat P v ''downloadvolumefactor'')"

definition UploadVolumeFactor :: "strconv \<Rightarrow> TorznabItem \<Rightarrow> real" where
  "UploadVolumeFactor P v =
     (if GetAttrValues v ''uploadvolumefactor'' = [] then 1
      else GetAttrFloat P v ''uploadvolumefactor'')"

definition Tags :: "TorznabItem \<Rightarrow> string list" where
  "Tags v = GetAttrValues v ''tag''"

definition Categories :: "TorznabItem \<Rightarrow> string list" where
  "Categories v =
     (if GetAttrValues v ''category'' \<noteq> [] then GetAttrValues v ''category''
      else Category (raw v))"

text \<open>The document of \<^verbatim>\<open>TestTorznabItemDefaults\<close>: one item, no extension attribute.\<close>

definition plain_item :: item where
  "plain_item = \<lparr>Title = ''Test Item'', Guid = [], Link = [], PubDate = [], Size = [],
     Description = [], Category = [''5000''], EnclosureURL = [], Attr = []\<rparr>"

definition plain_rss :: Rss where
  "plain_rss = \<lparr>Item = [plain_item]\<rparr>"

definition no_parse :: strconv where
  "no_parse = \<lparr>Atoi = (\<lambda>s. None), ParseFloat = (\<lambda>s. None)\<rparr>"

section \<open>Properties of the resilient transport\<close>

lemma Ctx_consume [simp]: "Ctx (consume k req) = Ctx req"
  by (simp add: consume_def)

lemma Ctx_resetBody [simp]: "Ctx (resetBody req b) = Ctx req"
  by (simp add: resetBody_def)

text \<open>
  When the body (if any) can be read, \<^verbatim>\<open>retryDo\<close> enters the retry loop with the request
  \<open>start_req req\<close>: the request itself, or the request with its body reset once.
\<close>

lemma retryDo_prefix:
  assumes "case Body req of None \<Rightarrow> True | Some b \<Rightarrow> fault b = None"
  shows "(case Body req of None \<Rightarrow> (None, req)
          | Some body \<Rightarrow>
              (case copyBody body of (originalBody, err) \<Rightarrow> (err, resetBody req originalBody)))
         = (None, (case Body req of None \<Rightarrow> req | Some b \<Rightarrow> resetBody req (unread b)))"
  using assms by (cases "Body req") (simp_all add: copyBody_def ReadAll_def)

subsection \<open>One attempt\<close>

lemma attempt_fails:
  assumes "transport_fails srv (Ctx req) (calls w)"
  shows "\<exists>e req1 w1. attempt srv (r0, req, w) = (Some (Plain e), (None, req1, w1)) \<and>
           Ctx req1 = Ctx req \<and> calls w1 = Suc (calls w) \<and> sleeps w1 = sleeps w"
  using assms
  by (auto simp: transport_fails_def attempt_def http_Do_def Let_def isl_def split: option.splits)

lemma attempt_answers_low:
  assumes "answers srv (Ctx req) (calls w) resp" and "StatusCode resp < 500"
  shows "\<exists>req1 w1. attempt srv (r0, req, w) = (None, (Some resp, req1, w1)) \<and>
           calls w1 = Suc (calls w) \<and> sleeps w1 = sleeps w"
  using assms
  by (auto simp: answers_def attempt_def http_Do_def Let_def)


subsection \<open>The loop\<close>

text \<open>
  After \<open>d\<close> failed transports, a response below 500 ends the loop with that response:
  \<open>d + 1\<close> calls and \<open>d\<close> sleeps were made.
\<close>

lemma retry_loop_completes:
  assumes "n + d < A"
      and "\<forall>i<d. transport_fails srv (Ctx req) (calls w + i)"
      and "answers srv (Ctx req) (calls w + d) resp"
      and "StatusCode resp < 500"
  shows "\<exists>req1 w1. retry_loop A (attempt srv) onRetry sleep n elog (r0, req, w) =
             (None, (Some resp, req1, w1)) \<and>
           calls w1 = calls w + d + 1 \<and> sleeps w1 = sleeps w + d"
  using assms
proof (induction d arbitrary: n elog r0 req w)
  case 0
  then obtain req1 w1 where
    "attempt srv (r0, req, w) = (None, (Some resp, req1, w1))"
    "calls w1 = Suc (calls w)" "sleeps w1 = sleeps w"
    using attempt_answers_low [of srv req w resp r0] by auto
  with 0 show ?case
    by (subst retry_loop.simps) simp
next
  case (Suc d)
  from Suc.prems(2) have "transport_fails srv (Ctx req) (calls w)"
    by (metis add.right_neutral zero_less_Suc)
  then obtain e req1 w1 where a:
    "attempt srv (r0, req, w) = (Some (Plain e), (None, req1, w1))"
    "Ctx req1 = Ctx req" "calls w1 = Suc (calls w)" "sleeps w1 = sleeps w"
    using attempt_fails [of srv req w r0] by auto
  define st where "st = sleep (onRetry n e (None, req1, w1))"
  obtain w2 where st:
    "st = (None, req1, w2)" "calls w2 = Suc (calls w)" "sleeps w2 = Suc (sleeps w)"
    using a by (simp add: st_def sleep_def onRetry_def)
  have f: "\<forall>i<d. transport_fails srv (Ctx req1) (calls w2 + i)"
    using Suc.prems(2) a(2) st(2) by (metis Suc_less_eq add_Suc_shift)
  have g: "answers srv (Ctx req1) (calls w2 + d) resp"
    using Suc.prems(3) a(2) st(2) by simp
  have "Suc n + d < A" using Suc.prems(1) by simp
  from Suc.IH [OF this f g Suc.prems(4), of "elog[n := Some e]" None]
  obtain req3 w3 where r:
    "retry_loop A (attempt srv) onRetry sleep (Suc n) (elog[n := Some e]) (None, req1, w2) =
       (None, (Some resp, req3, w3))"
    "calls w3 = calls w2 + d + 1" "sleeps w3 = sleeps w2 + d"
    by blast
  have "n < A" "n \<noteq> A - 1" using Suc.prems(1) by auto
  then have "retry_loop A (attempt srv) onRetry sleep n elog (r0, req, w) =
      retry_loop A (attempt srv) onRetry sleep (Suc n) (elog[n := Some e]) st"
    by (subst retry_loop.simps) (simp add: a st_def)
  with r st show ?case by simp
qed


subsection \<open>Responses below 500\<close>

text \<open>
  Claim C5. Whenever an attempt of \<^verbatim>\<open>retryDo\<close> receives a response with a status code
  below 500 (a 4xx included), the call is complete on that attempt: \<^verbatim>\<open>retryDo\<close> returns
  that response with a nil error and makes no further attempt. The attempt that receives
  the response is number \<open>k\<close> (from 0, below the 5 attempts allowed); it is reached when
  the \<open>k\<close> attempts before it failed in the transport. The call then has made exactly
  \<open>k + 1\<close> calls of \<^verbatim>\<open>http.Client.Do\<close> and slept \<open>k\<close> times.
\<close>

theorem retryDo_below_500_completes:
  assumes "case Body req of None \<Rightarrow> True | Some b \<Rightarrow> fault b = None"
      and "k < 5"
      and "\<forall>i<k. transport_fails srv (Ctx req) (calls w + i)"
      and "answers srv (Ctx req) (calls w + k) resp"
      and "StatusCode resp < 500"
  shows "fst (retryDo srv req w) = (Some resp, None) \<and>
         calls (snd (snd (retryDo srv req w))) = calls w + k + 1 \<and>
         sleeps (snd (snd (retryDo srv req w))) = sleeps w + k"
proof -
  define req1 where "req1 = (case Body req of None \<Rightarrow> req | Some b \<Rightarrow> resetBody req (unread b))"
  have c: "Ctx req1 = Ctx req" by (simp add: req1_def split: option.splits)
  from retry_loop_completes [of 0 k 5 srv req1 w resp "replicate 5 None" None] assms c
  obtain req2 w2 where
    "retry_Do 5 (attempt srv) onRetry sleep (None, req1, w) = (None, (Some resp, req2, w2))"
    "calls w2 = calls w + k + 1" "sleeps w2 = sleeps w + k"
    unfolding retry_Do_def by auto
  then show ?thesis
    using retryDo_prefix [OF assms(1)] by (simp add: retryDo_def req1_def)
qed

text \<open>The 404 of the test suite is returned on the first attempt.\<close>

theorem retryDo_404_first_attempt:
  "fst (retryDo always_404 get_req world0) = (Some not_found, None) \<and>
   calls (snd (snd (retryDo always_404 get_req world0))) = 1 \<and>
   sleeps (snd (snd (retryDo always_404 get_req world0))) = 0"
  using retryDo_below_500_completes
    [where req = get_req and k = 0 and w = world0 and srv = always_404 and resp = not_found]
  by (simp add: get_req_def world0_def always_404_def not_found_def answers_def Background_def)

subsection \<open>Responses of 500 and above\<close>

text \<open>
  Claim C1. The claim asks that a response of 500 or above be retried, so that a server
  answering 503, 503, 200 is served on the third attempt after at least 3 attempts. The
  closure of \<^verbatim>\<open>retryDo\<close> wraps such a status in \<^verbatim>\<open>retry.Unrecoverable\<close>, which ends the
  loop: against that server \<^verbatim>\<open>retryDo\<close> returns no response and an error after exactly
  one call of \<^verbatim>\<open>http.Client.Do\<close> and no sleep.
\<close>

theorem retryDo_503_fails_fast:
  "fst (retryDo flaky get_req world0) =
     (None, Some (Wrap (RetryError [Some (UnrecoverableStatus 503), None, None, None, None])
        ''error making request'')) \<and>
   calls (snd (snd (retryDo flaky get_req world0))) = 1 \<and>
   sleeps (snd (snd (retryDo flaky get_req world0))) = 0"
  by code_simp

subsection \<open>The request body across attempts\<close>

text \<open>
  Claim C3. The claim asks for a fresh body holding the original bytes before every
  attempt. \<^verbatim>\<open>retryDo\<close> copies the body once and calls \<^verbatim>\<open>resetBody\<close> once, before the
  loop; the closure does not reset it. With the POST body \<^verbatim>\<open>q=ubuntu\<close> and a first
  attempt that reads the body and then fails in the transport, the first attempt is
  offered the 8 original bytes and each of the four retries is offered the empty body.
\<close>

theorem retryDo_retry_offers_drained_body:
  "offered (snd (snd (retryDo drops_first post_req world0))) =
     [''q=ubuntu'', [], [], [], []] \<and>
   calls (snd (snd (retryDo drops_first post_req world0))) = 5"
  by code_simp

subsection \<open>A context that is done\<close>




section \<open>Properties of the address resolver\<close>

text \<open>\<^verbatim>\<open>buildUrl\<close> never reads the direct-mode flag.\<close>

lemma buildUrl_ignores_DirectMode:
  "buildUrl (c\<lparr>cfg := (cfg c)\<lparr>DirectMode := b\<rparr>\<rparr>) endpoint params = buildUrl c endpoint params"
  by (simp add: buildUrl_def)

text \<open>
  Claim C2. The claim asks that in direct mode the path be the host's path joined with
  the suffix and nothing else. \<^verbatim>\<open>buildUrl\<close> joins the fixed base \<^verbatim>\<open>/api/v2.0/indexers/\<close>
  between the two whatever the mode. For the client and the arguments of the case
  "direct mode with endpoint" of \<^verbatim>\<open>TestBuildURL\<close> the result holds the path
  \<^verbatim>\<open>/api/torznab/api/v2.0/indexers/search\<close>, not \<^verbatim>\<open>/api/torznab/search\<close>.
\<close>

theorem buildUrl_direct_mode_injects_base:
  "DirectMode (cfg direct_client) \<and>
   buildUrl direct_client ''search'' (Some [(''t'', ''search'')]) =
     Return ''https://tracker.example.com/api/torznab/api/v2.0/indexers/search?t=search''"
  by code_simp

section \<open>Properties of the attribute extraction model\<close>

lemma build_index_Nil [simp]: "build_index [] = Map.empty"
  by (simp add: build_index_def)

text \<open>
  Claim C8. An item that carries no extension attribute is viewed with seeders 0,
  leechers 0, peers 0, both volume factors 1.0, no tag, and the categories of its
  RSS-level list. It holds for every item of a decoded document, at its position in the
  result of \<^verbatim>\<open>ToTorznabItems\<close>, whatever the number parsers are.
\<close>

theorem no_attributes_defaults:
  assumes "i < length (Item rss)" and "Attr (Item rss ! i) = []"
  shows "Seeders P (ToTorznabItems rss ! i) = 0 \<and>
         Leechers P (ToTorznabItems rss ! i) = 0 \<and>
         Peers P (ToTorznabItems rss ! i) = 0 \<and>
         DownloadVolumeFactor P (ToTorznabItems rss ! i) = 1 \<and>
         UploadVolumeFactor P (ToTorznabItems rss ! i) = 1 \<and>
         Tags (ToTorznabItems rss ! i) = [] \<and>
         Categories (ToTorznabItems rss ! i) = Category (Item rss ! i)"
proof -
  have v: "ToTorznabItems rss ! i = \<lparr>raw = Item rss ! i, Attributes = Map.empty\<rparr>"
    using assms by (simp add: ToTorznabItems_def view_def)
  have none: "GetAttrValues (ToTorznabItems rss ! i) name = []" for name
    by (simp add: v GetAttrValues_def)
  show ?thesis
    by (simp add: Seeders_def Leechers_def Peers_def DownloadVolumeFactor_def
          UploadVolumeFactor_def Tags_def Categories_def GetAttrInt_def none)
      (simp add: v)
qed

theorem no_attributes_defaults_witness:
  "Seeders no_parse (ToTorznabItems plain_rss ! 0) = 0 \<and>
   Leechers no_parse (ToTorznabItems plain_rss ! 0) = 0 \<and>
   Peers no_parse (ToTorznabItems plain_rss ! 0) = 0 \<and>
   DownloadVolumeFactor no_parse (ToTorznabItems plain_rss ! 0) = 1 \<and>
   UploadVolumeFactor no_parse (ToTorznabItems plain_rss ! 0) = 1 \<and>
   Tags (ToTorznabItems plain_rss ! 0) = [] \<and>
   Categories (ToTorznabItems plain_rss ! 0) = [''5000'']"
  using no_attributes_defaults [where rss = plain_rss and i = 0 and P = no_parse]
  by (simp add: plain_rss_def plain_item_def)

section \<open>A nil error comes with a response\<close>




lemma Peek_zero [simp]: "Peek r 0 = None"
  by (simp add: Peek_def)




section \<open>Properties of \<^verbatim>\<open>GetIndexersCtx\<close> and \<^verbatim>\<open>GetTorrentsCtx\<close>\<close>







section \<open>A host that does not parse\<close>

lemma Parse_empty: "Parse [] = Inr URL0"
  by code_simp

lemma URL_String_query_only:
  "URL_String (URL0\<lparr>RawQuery := q\<rparr>) = (if q = [] then [] else ''?'' @ q)"
  by (simp add: URL_String_def URL0_def EscapedPath_def escape_def Cut_def IndexByte_def)

text \<open>
  When \<^verbatim>\<open>url.JoinPath\<close> rejects the host, \<^verbatim>\<open>buildUrl\<close> goes on with the empty string and
  returns the query alone.
\<close>

lemma buildUrl_rejected_host:
  assumes "snd (JoinPath (Host (cfg c)) [apiBase, endpoint]) = Some err"
  shows "buildUrl c endpoint params =
           Return (if Values_Encode (case params of None \<Rightarrow> [] | Some m \<Rightarrow> m) = [] then []
                   else ''?'' @ Values_Encode (case params of None \<Rightarrow> [] | Some m \<Rightarrow> m))"
proof -
  from assms have "fst (JoinPath (Host (cfg c)) [apiBase, endpoint]) = []"
    by (auto simp: JoinPath_def split: sum.splits)
  then show ?thesis
    by (simp add: buildUrl_def Parse_empty URL_String_query_only)
qed

text \<open>
  Claim C6, as stated: a malformed host is reported when the URL is resolved. It fails for
  a host with a space in it: \<^verbatim>\<open>url.JoinPath\<close> rejects it, \<^verbatim>\<open>buildUrl\<close> returns the string
  \<^verbatim>\<open>?q=ubuntu&t=search\<close> and no error, and the request built from that string goes to the
  transport five times.
\<close>

theorem buildUrl_bad_host_counterexample:
  "snd (JoinPath (Host (cfg bad_host_client)) [apiBase, ''all/results/torznab/api'']) =
     Some (ParseError ''http://local host:9117'' (InvalidHostError '' '')) \<and>
   buildUrl bad_host_client ''all/results/torznab/api''
     (Some [(''t'', ''search''), (''q'', ''ubuntu'')]) = Return ''?q=ubuntu&t=search'' \<and>
   (case getCtx bad_host_client refusing Background ''all/results/torznab/api''
           (Some [(''t'', ''search''), (''q'', ''ubuntu'')]) world0 of
      Return (r, w) \<Rightarrow> calls w
    | Panic msg \<Rightarrow> 0) = 5"
  by code_simp

section \<open>The search URL of an indexer\<close>

text \<open>
  Claim C9, as stated: for every indexer identifier the path holds the mount segment,
  then the identifier, then the results suffix. It fails for the identifier \<^verbatim>\<open>..\<close>:
  \<^verbatim>\<open>url.JoinPath\<close> cleans the joined path, the identifier takes the element \<^verbatim>\<open>indexers\<close>
  with it, and the URL holds neither the three parts in a row nor the mount segment.
\<close>

theorem buildUrl_dotdot_counterexample:
  "\<not> DirectMode (cfg proxy_client) \<and>
   buildUrl proxy_client (''..'' @ ''/results/torznab/api'') (Some [(''apikey'', ''test-key'')]) =
     Return ''http://localhost:9117/api/v2.0/results/torznab/api?apikey=test-key'' \<and>
   \<not> Contains ''http://localhost:9117/api/v2.0/results/torznab/api?apikey=test-key''
       (''/api/v2.0/indexers/'' @ ''..'' @ ''/results/torznab/api'') \<and>
   \<not> Contains ''http://localhost:9117/api/v2.0/results/torznab/api?apikey=test-key''
       ''/api/v2.0/indexers/''"
  by code_simp

end
